theory Spec2Isabelle
  imports Main "HOL-Library.Word"
begin

section \<open>Credential hasher (server/auth.ts: hashPassword, comparePasswords)\<close>

text \<open>
  Buffers are lists of bytes. JavaScript strings are modelled as \<open>string\<close>, one
  \<open>char\<close> per code unit.
\<close>

type_synonym byte = "8 word"

text \<open>
  Errors the handlers can see. The first two are thrown by Node's \<open>crypto\<close> module:
  \<open>scrypt\<close> refuses a salt that is \<open>undefined\<close> (a \<open>TypeError\<close>), and
  \<open>timingSafeEqual\<close> refuses buffers of different byte length (a \<open>RangeError\<close>).
  The others come from \<open>server/storage.ts\<close>: a failed \<open>userDbSchema.parse\<close>, a
  constraint of the table, the \<open>throw new Error("Failed to retrieve inserted user")\<close> of
  \<open>createUser\<close>, and the \<open>throw new Error(`User with id ${id} not found`)\<close> of
  \<open>getUserById\<close>.
\<close>

datatype error =
    ERR_INVALID_ARG_TYPE
  | ERR_CRYPTO_TIMING_SAFE_EQUAL_LENGTH
  | ZodError
  | UniqueViolation
  | ValueTooLong
  | FailedToRetrieveInsertedUser
  | UserNotFound nat

text \<open>\<open>buf.toString("hex")\<close>: two lower-case digits per byte.\<close>

definition hex_digit :: "nat \<Rightarrow> char" where
  "hex_digit n = ''0123456789abcdef'' ! n"

definition is_hex_lower :: "char \<Rightarrow> bool" where
  "is_hex_lower c = (c \<in> set ''0123456789abcdef'')"

definition toString_hex :: "byte list \<Rightarrow> string" where
  "toString_hex buf = concat (map (\<lambda>b. [hex_digit (unat b div 16), hex_digit (unat b mod 16)]) buf)"

text \<open>
  \<open>Buffer.from(s, "hex")\<close>: reads two digits (either case) per byte and stops at the
  first pair that is not two hex digits; a single trailing character is dropped.
\<close>

definition hex_val :: "char \<Rightarrow> nat option" where
  "hex_val c =
     (let n = (of_char c :: nat) in
      if 48 \<le> n \<and> n \<le> 57 then Some (n - 48)
      else if 97 \<le> n \<and> n \<le> 102 then Some (n - 87)
      else if 65 \<le> n \<and> n \<le> 70 then Some (n - 55)
      else None)"

fun from_hex :: "string \<Rightarrow> byte list" where
  "from_hex (a # b # rest) =
     (case hex_val a of
        None \<Rightarrow> []
      | Some h \<Rightarrow>
          (case hex_val b of
             None \<Rightarrow> []
           | Some l \<Rightarrow> of_nat (16 * h + l) # from_hex rest))"
| "from_hex _ = []"

text \<open>\<open>s.split(sep)\<close> for a one-character separator: never an empty array.\<close>

fun js_split :: "char \<Rightarrow> string \<Rightarrow> string list" where
  "js_split sep [] = [[]]"
| "js_split sep (c # cs) =
     (if c = sep then [] # js_split sep cs
      else (case js_split sep cs of
              [] \<Rightarrow> [[c]]
            | p # ps \<Rightarrow> (c # p) # ps))"

text \<open>
  \<open>timingSafeEqual(a, b)\<close>: throws when the byte lengths differ, otherwise compares.
\<close>

definition timingSafeEqual :: "byte list \<Rightarrow> byte list \<Rightarrow> error + bool" where
  "timingSafeEqual a b =
     (if length a \<noteq> length b then Inl ERR_CRYPTO_TIMING_SAFE_EQUAL_LENGTH else Inr (a = b))"

text \<open>
  The key derivation \<open>scrypt(password, salt, keylen)\<close> of Node's \<open>crypto\<close> is a
  parameter of the model, and so is the value \<open>randomBytes(16)\<close> returns.

  \<^verbatim>\<open>
  export async function hashPassword(password: string) {
    const salt = randomBytes(16).toString("hex");
    const buf = (await scryptAsync(password, salt, 64)) as Buffer;
    return `${buf.toString("hex")}.${salt}`;
  }
  \<close>
\<close>

type_synonym kdf = "string \<Rightarrow> string \<Rightarrow> nat \<Rightarrow> byte list"

definition hashPassword :: "kdf \<Rightarrow> byte list \<Rightarrow> string \<Rightarrow> string" where
  "hashPassword scrypt randomBytes16 password =
     (let salt = toString_hex randomBytes16;
          buf = scrypt password salt 64
      in toString_hex buf @ ''.'' @ salt)"

text \<open>
  \<^verbatim>\<open>
  async function comparePasswords(supplied: string, stored: string) {
    const [hashed, salt] = stored.split(".");
    const hashedBuf = Buffer.from(hashed, "hex");
    const suppliedBuf = (await scryptAsync(supplied, salt, 64)) as Buffer;
    return timingSafeEqual(hashedBuf, suppliedBuf);
  }
  \<close>
  When \<open>stored\<close> has no \<open>.\<close> the destructuring leaves \<open>salt\<close> undefined, and
  \<open>scrypt\<close> throws on it.
\<close>

definition comparePasswords :: "kdf \<Rightarrow> string \<Rightarrow> string \<Rightarrow> error + bool" where
  "comparePasswords scrypt supplied stored =
     (case js_split CHR ''.'' stored of
        hashed # salt # _ \<Rightarrow>
          (let hashedBuf = from_hex hashed;
               suppliedBuf = scrypt supplied salt 64
           in timingSafeEqual hashedBuf suppliedBuf)
      | _ \<Rightarrow> Inl ERR_INVALID_ARG_TYPE)"

section \<open>Accounts (shared/schema.ts)\<close>

text \<open>
  \<open>DbUser\<close> is the object the registration handler builds; \<open>User\<close> is a row of the
  table \<open>users\<close>, which adds the serial \<open>id\<close> (here \<open>user_id\<close>) and \<open>createdAt\<close>.
  A nullable column is an \<open>option\<close>.
\<close>

record dbUser =
  username :: string
  password :: string
  firstName :: string
  lastName :: string
  email :: "string option"
  phone :: "string option"
  authCode :: "string option"

record user = dbUser +
  user_id :: nat
  createdAt :: nat

text \<open>
  The state the handlers act on: the rows of \<open>users\<close> in insertion order, the sequence
  behind the serial column, and the session store, which maps a session id to the
  account id that \<open>passport.serializeUser\<close> put there.
\<close>

record state =
  users :: "user list"
  users_id_seq :: nat
  sessions :: "string \<rightharpoonup> nat"

text \<open>
  What the runtime supplies while one request is handled: the two library functions
  the code calls (\<open>scrypt\<close> of Node's \<open>crypto\<close>, the e-mail test behind zod's
  \<open>z.string().email()\<close>), the bytes \<open>randomBytes(16)\<close> returns, and the clock that
  \<open>defaultNow()\<close> reads.
\<close>

record env =
  scrypt :: kdf
  isEmail :: "string \<Rightarrow> bool"
  randomBytes16 :: "byte list"
  now :: nat

section \<open>Directory (server/storage.ts: DatabaseStorage)\<close>

text \<open>
  \<^verbatim>\<open>
  async getUserByUsername(username: string): Promise<SelectUser | undefined> {
    const result = await db.query.users.findFirst({
      where: eq(users.username, username)
    });
    return result;
  }
  \<close>
\<close>

definition getUserByUsername :: "state \<Rightarrow> string \<Rightarrow> user option" where
  "getUserByUsername st name = find (\<lambda>u. username u = name) (users st)"

text \<open>
  \<^verbatim>\<open>
  async getUserById(id: number): Promise<SelectUser> {
    const result = await db.query.users.findFirst({
      where: eq(users.id, id)
    });
    if (!result) {
      throw new Error(`User with id ${id} not found`);
    }
    return result;
  }
  \<close>
\<close>

definition getUserById :: "state \<Rightarrow> nat \<Rightarrow> error + user" where
  "getUserById st i =
     (case find (\<lambda>u. user_id u = i) (users st) of
        None \<Rightarrow> Inl (UserNotFound i)
      | Some result \<Rightarrow> Inr result)"

text \<open>
  \<open>userDbSchema\<close> (shared/schema.ts):
  \<^verbatim>\<open>
  firstName: z.string().min(2, ...), lastName: z.string().min(2, ...),
  username: z.string().min(3, ...),
  email: z.string().email("Invalid email address").optional().nullable(),
  phone: z.string().optional().nullable(), password: z.string(),
  authCode: z.string().optional().nullable()
  \<close>
\<close>

definition userDbSchema_parse :: "(string \<Rightarrow> bool) \<Rightarrow> dbUser \<Rightarrow> error + dbUser" where
  "userDbSchema_parse is_email u =
     (if length (firstName u) < 2 \<or> length (lastName u) < 2 \<or> length (username u) < 3
         \<or> (case email u of None \<Rightarrow> False | Some e \<Rightarrow> \<not> is_email e)
      then Inl ZodError
      else Inr u)"

text \<open>
  Storing into a \<open>varchar(n)\<close> column: PostgreSQL refuses a longer string, unless the
  excess is all spaces, which it cuts off.
\<close>

definition varchar :: "nat \<Rightarrow> string \<Rightarrow> error + string" where
  "varchar n s =
     (if length s \<le> n then Inr s
      else if list_all (\<lambda>c. c = CHR '' '') (drop n s) then Inr (take n s)
      else Inl ValueTooLong)"

definition varchar_null :: "nat \<Rightarrow> string option \<Rightarrow> error + string option" where
  "varchar_null n v =
     (case v of
        None \<Rightarrow> Inr None
      | Some s \<Rightarrow> (case varchar n s of Inl e \<Rightarrow> Inl e | Inr s' \<Rightarrow> Inr (Some s')))"

definition and_then :: "error + 'a \<Rightarrow> ('a \<Rightarrow> error + 'b) \<Rightarrow> error + 'b" where
  "and_then r f = (case r of Inl e \<Rightarrow> Inl e | Inr x \<Rightarrow> f x)"

text \<open>
  The table as the schema declares it:
  \<^verbatim>\<open>
  id: serial("id").primaryKey(),
  firstName: varchar("first_name", { length: 100 }).notNull(),
  lastName: varchar("last_name", { length: 100 }).notNull(),
  username: varchar("username", { length: 100 }).notNull().unique(),
  email: varchar("email", { length: 255 }),
  phone: varchar("phone", { length: 20 }),
  password: varchar("password", { length: 255 }).notNull(),
  authCode: varchar("auth_code", { length: 100 }),
  createdAt: timestamp("created_at").defaultNow().notNull(),
  \<close>
  \<open>users_values\<close> brings the values of \<open>db.insert(users).values(validUser)\<close> to the
  types of their columns.
\<close>

definition users_values :: "dbUser \<Rightarrow> error + dbUser" where
  "users_values v =
     and_then (varchar 100 (firstName v)) (\<lambda>fn.
     and_then (varchar 100 (lastName v)) (\<lambda>ln.
     and_then (varchar 100 (username v)) (\<lambda>un.
     and_then (varchar_null 255 (email v)) (\<lambda>em.
     and_then (varchar_null 20 (phone v)) (\<lambda>ph.
     and_then (varchar 255 (password v)) (\<lambda>pw.
     and_then (varchar_null 100 (authCode v)) (\<lambda>ac.
       Inr \<lparr>username = un, password = pw, firstName = fn, lastName = ln,
            email = em, phone = ph, authCode = ac\<rparr>)))))))"

text \<open>
  The insert returns the state it leaves and the error it raised, if any. A value that
  does not fit its column is refused before a row is formed. A row is numbered by the
  sequence before the unique constraint on \<open>username\<close> is checked, so a refused
  duplicate leaves the sequence advanced.
\<close>

definition insert_users :: "state \<Rightarrow> nat \<Rightarrow> dbUser \<Rightarrow> state \<times> error option" where
  "insert_users st created v =
     (case users_values v of
        Inl e \<Rightarrow> (st, Some e)
      | Inr r \<Rightarrow>
          if list_ex (\<lambda>u. username u = username r) (users st)
          then (st\<lparr>users_id_seq := users_id_seq st + 1\<rparr>, Some UniqueViolation)
          else (st\<lparr>users := users st @
                       [\<lparr>username = username r, password = password r,
                         firstName = firstName r, lastName = lastName r,
                         email = email r, phone = phone r, authCode = authCode r,
                         user_id = users_id_seq st + 1, createdAt = created\<rparr>],
                    users_id_seq := users_id_seq st + 1\<rparr>, None))"

text \<open>
  \<^verbatim>\<open>
  async createUser(user: DbUser): Promise<SelectUser> {
    try {
      const validUser = userDbSchema.parse(user);
      await db.insert(users).values(validUser);
      const insertedUser = await db.query.users.findFirst({
        where: eq(users.username, validUser.username)
      });
      if (!insertedUser) {
        throw new Error("Failed to retrieve inserted user");
      }
      return insertedUser;
    } catch (error) {
      throw error;
    }
  }
  \<close>
  The state is returned with the error as well: what the insert did stays done when
  the function throws after it.
\<close>

definition createUser :: "env \<Rightarrow> state \<Rightarrow> dbUser \<Rightarrow> state \<times> (error + user)" where
  "createUser E st u =
     (case userDbSchema_parse (isEmail E) u of
        Inl e \<Rightarrow> (st, Inl e)
      | Inr validUser \<Rightarrow>
          (case insert_users st (now E) validUser of
             (st', Some e) \<Rightarrow> (st', Inl e)
           | (st', None) \<Rightarrow>
               (case find (\<lambda>r. username r = username validUser) (users st') of
                  None \<Rightarrow> (st', Inl FailedToRetrieveInsertedUser)
                | Some insertedUser \<Rightarrow> (st', Inr insertedUser))))"

section \<open>Sessions\<close>

text \<open>
  \<open>storage.sessionStore\<close> is a \<open>MemoryStore\<close> of the \<open>memorystore\<close> package, a store
  in memory keyed by session id; the expiry of sessions is left out. What passport keeps
  in a session is the account id: \<open>req.login\<close> binds the request's session to the id that
  \<open>passport.serializeUser((user, done) => done(null, user.id))\<close> yields, and
  \<open>req.logout\<close> removes the binding. Both hand their callback the error of the store,
  if any; a store in memory raises none.
\<close>

definition req_login :: "state \<Rightarrow> string \<Rightarrow> user \<Rightarrow> state \<times> error option" where
  "req_login st sid u = (st\<lparr>sessions := (sessions st)(sid \<mapsto> user_id u)\<rparr>, None)"

definition req_logout :: "state \<Rightarrow> string \<Rightarrow> state \<times> error option" where
  "req_logout st sid = (st\<lparr>sessions := (sessions st)(sid := None)\<rparr>, None)"

text \<open>
  \<^verbatim>\<open>
  passport.deserializeUser(async (id: number, done) => {
    try {
      const user = await storage.getUserById(id);
      done(null, user);
    } catch (error) {
      done(error);
    }
  });
  \<close>
\<close>

definition deserializeUser :: "state \<Rightarrow> nat \<Rightarrow> error + user" where
  "deserializeUser st i =
     (case getUserById st i of
        Inr u \<Rightarrow> Inr u
      | Inl e \<Rightarrow> Inl e)"

section \<open>Requests and responses\<close>

text \<open>
  The fields the handlers read from \<open>req.body\<close>, each a string or absent, and the id
  of the request's session.
\<close>

record request =
  body_username :: "string option"
  body_password :: "string option"
  body_firstName :: "string option"
  body_lastName :: "string option"
  body_email :: "string option"
  body_phone :: "string option"
  body_authCode :: "string option"
  body_captchaToken :: "string option"
  body_confirmPassword :: "string option"
  sessionID :: string

datatype json = JNull | JString string | JNumber nat | JDate nat

datatype body = Message string | UserJson "(string \<times> json) list"

text \<open>
  \<open>res.status(n).json(b)\<close>, \<open>res.sendStatus(n)\<close>, or the error handed to \<open>next\<close>.
\<close>

datatype response = Json nat body | SendStatus nat | Next error

text \<open>JavaScript truthiness of a string or absent value, and \<open>x || null\<close>.\<close>

definition truthy :: "string option \<Rightarrow> bool" where
  "truthy v = (case v of None \<Rightarrow> False | Some s \<Rightarrow> s \<noteq> [])"

definition or_null :: "string option \<Rightarrow> string option" where
  "or_null v = (if truthy v then v else None)"

definition str :: "string option \<Rightarrow> string" where
  "str v = (case v of None \<Rightarrow> [] | Some s \<Rightarrow> s)"

text \<open>
  The row as the object the handlers destructure, one property per column, and
  \<open>const { password, ...userWithoutPassword } = user\<close>.
\<close>

definition nullable :: "string option \<Rightarrow> json" where
  "nullable v = (case v of None \<Rightarrow> JNull | Some s \<Rightarrow> JString s)"

definition user_object :: "user \<Rightarrow> (string \<times> json) list" where
  "user_object u =
     [(''id'', JNumber (user_id u)),
      (''firstName'', JString (firstName u)),
      (''lastName'', JString (lastName u)),
      (''username'', JString (username u)),
      (''email'', nullable (email u)),
      (''phone'', nullable (phone u)),
      (''password'', JString (password u)),
      (''authCode'', nullable (authCode u)),
      (''createdAt'', JDate (createdAt u))]"

definition rest_without :: "string \<Rightarrow> (string \<times> json) list \<Rightarrow> (string \<times> json) list" where
  "rest_without k obj = filter (\<lambda>p. fst p \<noteq> k) obj"

definition userWithoutPassword :: "user \<Rightarrow> (string \<times> json) list" where
  "userWithoutPassword u = rest_without ''password'' (user_object u)"

text \<open>
  What "the account with the digest excluded" asks of a response body: it is an object
  whose keys are the keys of the row without \<open>password\<close>, in the row's order, each with
  the row's value.
\<close>

definition digest_excluded :: "user \<Rightarrow> body \<Rightarrow> bool" where
  "digest_excluded u b =
     (case b of
        Message m \<Rightarrow> False
      | UserJson obj \<Rightarrow>
          map fst obj = remove1 ''password'' (map fst (user_object u)) \<and>
          list_all (\<lambda>p. map_of (user_object u) (fst p) = Some (snd p)) obj)"

section \<open>Handlers (server/auth.ts: setupAuth)\<close>

text \<open>
  \<open>app.use(passport.session())\<close> runs before every route: when the request's session
  is bound to an account id it calls \<open>deserializeUser\<close>, sets \<open>req.user\<close> to the
  account found, and fails the request with the error if there is one, so that the
  route is not reached.
\<close>

definition passport_session :: "state \<Rightarrow> request \<Rightarrow> error + user option" where
  "passport_session st req =
     (case sessions st (sessionID req) of
        None \<Rightarrow> Inr None
      | Some i \<Rightarrow>
          (case deserializeUser st i of
             Inl e \<Rightarrow> Inl e
           | Inr u \<Rightarrow> Inr (Some u)))"

definition route ::
  "state \<Rightarrow> request \<Rightarrow> (user option \<Rightarrow> state \<times> response) \<Rightarrow> state \<times> response" where
  "route st req handler =
     (case passport_session st req of
        Inl e \<Rightarrow> (st, Next e)
      | Inr req_user \<Rightarrow> handler req_user)"

text \<open>
  Each route below is given twice: its callback (\<open>register_handler\<close>,
  \<open>login_handler\<close>, \<open>logout_handler\<close>, \<open>user_handler\<close>), and the route as the
  application serves it, the callback behind \<open>passport.session()\<close> (\<open>api_register\<close>,
  \<open>api_login\<close>, \<open>api_logout\<close>, \<open>api_user\<close>).
\<close>

text \<open>
  \<open>POST /api/register\<close>. The handler reads \<open>captchaToken\<close> from the body and logs
  \<open>captchaVerified: !!captchaToken\<close>; nothing else depends on it. The checks, in order:
  \<^verbatim>\<open>
  if (!username || !password || !firstName || !lastName) { return res.status(400).json(...) }
  if (!email && !phone) { return res.status(400).json(...) }
  if (password !== confirmPassword) { return res.status(400).json(...) }
  const existingUser = await storage.getUserByUsername(username);
  if (existingUser) { return res.status(400).json({ message: "Username already exists" }); }
  const hashedPassword = await hashPassword(password);
  const userData: DbUser = { username, password: hashedPassword, firstName, lastName,
    email: email || null, phone: phone || null, authCode: authCode || null };
  const user = await storage.createUser(userData);
  req.login(user, (err) => {
    if (err) return next(err);
    const { password, ...userWithoutPassword } = user;
    return res.status(201).json(userWithoutPassword);
  });
  \<close>
  and \<open>catch (error) { next(error) }\<close> around all of it.
\<close>

definition register_handler :: "env \<Rightarrow> state \<Rightarrow> request \<Rightarrow> state \<times> response" where
  "register_handler E st req =
     (if \<not> truthy (body_username req) \<or> \<not> truthy (body_password req)
         \<or> \<not> truthy (body_firstName req) \<or> \<not> truthy (body_lastName req)
      then (st, Json 400 (Message
        ''Missing required fields: username, password, firstName, and lastName are required''))
      else if \<not> truthy (body_email req) \<and> \<not> truthy (body_phone req)
      then (st, Json 400 (Message ''Either email or phone number is required''))
      else if body_password req \<noteq> body_confirmPassword req
      then (st, Json 400 (Message ''Passwords do not match''))
      else
        (case getUserByUsername st (str (body_username req)) of
           Some existingUser \<Rightarrow> (st, Json 400 (Message ''Username already exists''))
         | None \<Rightarrow>
             (let hashedPassword =
                    hashPassword (scrypt E) (randomBytes16 E) (str (body_password req));
                  userData =
                    \<lparr>username = str (body_username req),
                     password = hashedPassword,
                     firstName = str (body_firstName req),
                     lastName = str (body_lastName req),
                     email = or_null (body_email req),
                     phone = or_null (body_phone req),
                     authCode = or_null (body_authCode req)\<rparr>
              in case createUser E st userData of
                   (st', Inl e) \<Rightarrow> (st', Next e)
                 | (st', Inr u) \<Rightarrow>
                     (case req_login st' (sessionID req) u of
                        (st'', Some err) \<Rightarrow> (st'', Next err)
                      | (st'', None) \<Rightarrow> (st'', Json 201 (UserJson (userWithoutPassword u)))))))"

definition api_register :: "env \<Rightarrow> state \<Rightarrow> request \<Rightarrow> state \<times> response" where
  "api_register E st req = route st req (\<lambda>req_user. register_handler E st req)"

text \<open>
  The verify callback of the \<open>LocalStrategy\<close>:
  \<^verbatim>\<open>
  try {
    const user = await storage.getUserByUsername(username);
    if (!user || !(await comparePasswords(password, user.password))) {
      return done(null, false);
    }
    return done(null, user);
  } catch (error) {
    return done(error);
  }
  \<close>
\<close>

definition verify :: "env \<Rightarrow> state \<Rightarrow> string \<Rightarrow> string \<Rightarrow> error + user option" where
  "verify E st name pw =
     (case getUserByUsername st name of
        None \<Rightarrow> Inr None
      | Some u \<Rightarrow>
          (case comparePasswords (scrypt E) pw (password u) of
             Inl e \<Rightarrow> Inl e
           | Inr ok \<Rightarrow> if ok then Inr (Some u) else Inr None))"

text \<open>
  \<open>passport.authenticate("local", callback)\<close>: passport-local fails the attempt
  without calling the verify callback when the body has no username or no password, and
  the callback then sees no user, as after \<open>done(null, false)\<close>.
\<close>

definition authenticate_local :: "env \<Rightarrow> state \<Rightarrow> request \<Rightarrow> error + user option" where
  "authenticate_local E st req =
     (if \<not> truthy (body_username req) \<or> \<not> truthy (body_password req) then Inr None
      else verify E st (str (body_username req)) (str (body_password req)))"

text \<open>
  \<open>POST /api/login\<close>:
  \<^verbatim>\<open>
  if (!captchaToken) {
    return res.status(400).json({ message: "CAPTCHA verification is required" });
  }
  passport.authenticate("local", (err: Error, user: SelectUser) => {
    if (err) return next(err);
    if (!user) {
      return res.status(401).json({ message: "Invalid username or password" });
    }
    req.login(user, (loginErr) => {
      if (loginErr) return next(loginErr);
      const { password, ...userWithoutPassword } = user;
      return res.status(200).json(userWithoutPassword);
    });
  })(req, res, next);
  \<close>
\<close>

definition login_handler :: "env \<Rightarrow> state \<Rightarrow> request \<Rightarrow> state \<times> response" where
  "login_handler E st req =
     (if \<not> truthy (body_captchaToken req)
      then (st, Json 400 (Message ''CAPTCHA verification is required''))
      else
        (case authenticate_local E st req of
           Inl err \<Rightarrow> (st, Next err)
         | Inr None \<Rightarrow> (st, Json 401 (Message ''Invalid username or password''))
         | Inr (Some u) \<Rightarrow>
             (case req_login st (sessionID req) u of
                (st', Some loginErr) \<Rightarrow> (st', Next loginErr)
              | (st', None) \<Rightarrow> (st', Json 200 (UserJson (userWithoutPassword u))))))"

definition api_login :: "env \<Rightarrow> state \<Rightarrow> request \<Rightarrow> state \<times> response" where
  "api_login E st req = route st req (\<lambda>req_user. login_handler E st req)"

text \<open>
  \<open>POST /api/logout\<close>:
  \<^verbatim>\<open>
  req.logout((err) => {
    if (err) return next(err);
    res.sendStatus(200);
  });
  \<close>
\<close>

definition logout_handler :: "state \<Rightarrow> request \<Rightarrow> state \<times> response" where
  "logout_handler st req =
     (case req_logout st (sessionID req) of
        (st', Some err) \<Rightarrow> (st', Next err)
      | (st', None) \<Rightarrow> (st', SendStatus 200))"

definition api_logout :: "state \<Rightarrow> request \<Rightarrow> state \<times> response" where
  "api_logout st req = route st req (\<lambda>req_user. logout_handler st req)"

text \<open>
  \<open>GET /api/user\<close>; \<open>req.isAuthenticated()\<close> holds when \<open>req.user\<close> is set.
  \<^verbatim>\<open>
  if (!req.isAuthenticated()) {
    return res.status(401).json({ message: "Not authenticated" });
  }
  const { password, ...userWithoutPassword } = req.user;
  res.json(userWithoutPassword);
  \<close>
\<close>

definition user_handler :: "state \<Rightarrow> user option \<Rightarrow> state \<times> response" where
  "user_handler st req_user =
     (case req_user of
        None \<Rightarrow> (st, Json 401 (Message ''Not authenticated''))
      | Some u \<Rightarrow> (st, Json 200 (UserJson (userWithoutPassword u))))"

definition api_user :: "state \<Rightarrow> request \<Rightarrow> state \<times> response" where
  "api_user st req = route st req (user_handler st)"

section \<open>A sample environment\<close>

text \<open>
  A stand-in key derivation for running the model on examples: \<open>keylen\<close> bytes, each
  the length of the password. Nothing general is proved about it.
\<close>

definition sample_scrypt :: kdf where
  "sample_scrypt pw salt keylen = replicate keylen (of_nat (length pw))"

definition sample_env :: env where
  "sample_env =
     \<lparr>scrypt = sample_scrypt,
      isEmail = (\<lambda>s. CHR ''@'' \<in> set s),
      randomBytes16 = [1, 2, 3, 4, 5, 6, 7, 8, 9, 10, 11, 12, 13, 14, 15, 16],
      now = 1000\<rparr>"

definition empty_state :: state where
  "empty_state = \<lparr>users = [], users_id_seq = 0, sessions = Map.empty\<rparr>"

definition alice_request :: request where
  "alice_request =
     \<lparr>body_username = Some ''alice'',
      body_password = Some ''Secret123!'',
      body_firstName = Some ''Al'',
      body_lastName = Some ''Bo'',
      body_email = Some ''a@b.com'',
      body_phone = Some '''',
      body_authCode = Some '''',
      body_captchaToken = None,
      body_confirmPassword = Some ''Secret123!'',
      sessionID = ''s1''\<rparr>"

definition login_request :: "string \<Rightarrow> string \<Rightarrow> request" where
  "login_request name pw =
     \<lparr>body_username = Some name,
      body_password = Some pw,
      body_firstName = None,
      body_lastName = None,
      body_email = None,
      body_phone = None,
      body_authCode = None,
      body_captchaToken = Some ''abc123'',
      body_confirmPassword = None,
      sessionID = ''s2''\<rparr>"

text \<open>The row and the state that registering \<open>alice_request\<close> leaves behind.\<close>

definition alice_row :: user where
  "alice_row =
     \<lparr>username = ''alice'',
      password = hashPassword sample_scrypt (randomBytes16 sample_env) ''Secret123!'',
      firstName = ''Al'',
      lastName = ''Bo'',
      email = Some ''a@b.com'',
      phone = None,
      authCode = None,
      user_id = 1,
      createdAt = 1000\<rparr>"

definition alice_state :: state where
  "alice_state = \<lparr>users = [alice_row], users_id_seq = 1, sessions = [''s1'' \<mapsto> 1]\<rparr>"

text \<open>
  A row as \<open>db/import.ts\<close> inserts it: a password that contains a \<open>.\<close> is taken
  for a digest and stored as it is.
  \<^verbatim>\<open>
  if (user.password && !user.password.includes('.')) {
    user.password = await hashPassword(user.password);
  }
  \<close>
\<close>

definition carol_row :: user where
  "carol_row =
     \<lparr>username = ''carol'',
      password = ''P.ssw0rd'',
      firstName = ''Carol'',
      lastName = ''Jones'',
      email = Some ''c@d.org'',
      phone = None,
      authCode = None,
      user_id = 1,
      createdAt = 1000\<rparr>"

definition imported_state :: state where
  "imported_state = \<lparr>users = [carol_row], users_id_seq = 1, sessions = Map.empty\<rparr>"

text \<open>
  The state after \<open>alice_request\<close> with one more session, \<open>s9\<close>, left bound to an
  account whose row is gone from the table.
\<close>

definition stale_state :: state where
  "stale_state = alice_state\<lparr>sessions := (sessions alice_state)(''s9'' \<mapsto> 7)\<rparr>"

text \<open>
  A registration whose username is one character longer than its column, the excess a
  space.
\<close>

definition padded_request :: request where
  "padded_request = alice_request\<lparr>body_username := Some (replicate 100 CHR ''a'' @ '' '')\<rparr>"

section \<open>Hex encoding and splitting\<close>

lemma lt16_cases: "n < (16::nat) \<Longrightarrow> n \<in> {0,1,2,3,4,5,6,7,8,9,10,11,12,13,14,15}"
  by (simp add: numeral_eq_Suc less_Suc_eq)

lemma hex_val_hex_digit: "n < 16 \<Longrightarrow> hex_val (hex_digit n) = Some n"
  by (drule lt16_cases) (auto simp add: hex_val_def hex_digit_def)

lemma hex_digit_lower: "n < 16 \<Longrightarrow> is_hex_lower (hex_digit n)"
  by (drule lt16_cases) (auto simp add: hex_digit_def is_hex_lower_def)

lemma byte_hi_lt: "unat (b :: byte) div 16 < 16"
proof -
  have "unat b < 2 ^ LENGTH(8)" by (rule unsigned_less)
  then show ?thesis by simp
qed

lemma from_hex_toString_hex: "from_hex (toString_hex buf) = buf"
  by (induction buf) (simp_all add: toString_hex_def hex_val_hex_digit byte_hi_lt)

lemma length_toString_hex: "length (toString_hex buf) = 2 * length buf"
  by (induction buf) (simp_all add: toString_hex_def)

lemma toString_hex_lower: "list_all is_hex_lower (toString_hex buf)"
  by (induction buf) (simp_all add: toString_hex_def hex_digit_lower byte_hi_lt)

lemma dot_notin_toString_hex: "CHR ''.'' \<notin> set (toString_hex buf)"
proof
  assume "CHR ''.'' \<in> set (toString_hex buf)"
  with toString_hex_lower [of buf] have "is_hex_lower CHR ''.''"
    by (simp add: list_all_iff)
  then show False by (simp add: is_hex_lower_def)
qed

lemma js_split_no_sep: "sep \<notin> set s \<Longrightarrow> js_split sep s = [s]"
  by (induction s) auto

lemma js_split_append: "sep \<notin> set a \<Longrightarrow> js_split sep (a @ sep # b) = a # js_split sep b"
  by (induction a) auto

lemma js_split_hd: "\<exists>ps. js_split sep s = takeWhile (\<lambda>c. c \<noteq> sep) s # ps"
  by (induction s) (auto split: list.splits)

lemma js_split_sep:
  "sep \<in> set s \<Longrightarrow>
   js_split sep s =
     takeWhile (\<lambda>c. c \<noteq> sep) s # js_split sep (tl (dropWhile (\<lambda>c. c \<noteq> sep) s))"
  by (induction s) (auto simp: js_split_no_sep split: list.splits)

section \<open>Properties of the hasher\<close>

lemma comparePasswords_hashPassword:
  "comparePasswords kd supplied (hashPassword kd rnd pw) =
     timingSafeEqual (kd pw (toString_hex rnd) 64) (kd supplied (toString_hex rnd) 64)"
proof -
  have "js_split CHR ''.'' (toString_hex (kd pw (toString_hex rnd) 64) @ CHR ''.'' # toString_hex rnd) =
          [toString_hex (kd pw (toString_hex rnd) 64), toString_hex rnd]"
    by (simp add: js_split_append js_split_no_sep dot_notin_toString_hex)
  then show ?thesis
    by (simp add: comparePasswords_def hashPassword_def Let_def from_hex_toString_hex)
qed

lemma comparePasswords_parts:
  "comparePasswords kd supplied stored =
     (if CHR ''.'' \<notin> set stored then Inl ERR_INVALID_ARG_TYPE
      else timingSafeEqual
             (from_hex (takeWhile (\<lambda>c. c \<noteq> CHR ''.'') stored))
             (kd supplied
                (takeWhile (\<lambda>c. c \<noteq> CHR ''.'') (tl (dropWhile (\<lambda>c. c \<noteq> CHR ''.'') stored))) 64))"
proof (cases "CHR ''.'' \<in> set stored")
  case False
  then show ?thesis by (simp add: comparePasswords_def js_split_no_sep)
next
  case True
  obtain ps where
    "js_split CHR ''.'' (tl (dropWhile (\<lambda>c. c \<noteq> CHR ''.'') stored)) =
       takeWhile (\<lambda>c. c \<noteq> CHR ''.'') (tl (dropWhile (\<lambda>c. c \<noteq> CHR ''.'') stored)) # ps"
    using js_split_hd by blast
  with True show ?thesis
    by (simp add: comparePasswords_def js_split_sep [OF True] Let_def)
qed

lemma finite_keys: "finite {k :: byte list. length k = n}"
  using finite_lists_length_eq [of "UNIV :: byte set" n] by simp

lemma kdf_collision:
  fixes f :: "string \<Rightarrow> byte list"
  assumes "\<forall>p. length (f p) = n"
  shows "\<exists>p q. p \<noteq> q \<and> f p = f q"
proof (rule ccontr)
  assume "\<not> (\<exists>p q. p \<noteq> q \<and> f p = f q)"
  then have "inj f" by (auto simp add: inj_on_def)
  moreover have "range f \<subseteq> {k. length k = n}" using assms by auto
  then have "finite (range f)" using finite_keys finite_subset by blast
  ultimately have "finite (UNIV :: string set)" by (rule finite_imageD [rotated])
  then show False using infinite_UNIV_listI by blast
qed

section \<open>Properties of the directory and of registration\<close>

lemma insert_users_None:
  assumes "insert_users st created v = (st', None)"
  shows "\<exists>row. users st' = users st @ [row] \<and> sessions st' = sessions st \<and>
           \<not> list_ex (\<lambda>u. username u = username row) (users st) \<and>
           varchar 100 (username v) = Inr (username row) \<and>
           varchar_null 255 (email v) = Inr (email row) \<and>
           varchar_null 20 (phone v) = Inr (phone row) \<and>
           varchar_null 100 (authCode v) = Inr (authCode row)"
  using assms unfolding insert_users_def users_values_def
  by (auto simp add: and_then_def split: sum.splits if_splits)

lemma find_append_new:
  "find P xs = None \<Longrightarrow> find P (xs @ [x]) = Some y \<Longrightarrow> y = x \<and> P x"
  by (induction xs) (auto split: if_splits)

lemma find_None_filter: "find P xs = None \<Longrightarrow> filter P xs = []"
  by (induction xs) (auto split: if_splits)

lemma createUser_Inr:
  assumes "createUser E st d = (st', Inr u)"
    and "find (\<lambda>r. username r = username d) (users st) = None"
  shows "users st' = users st @ [u] \<and> sessions st' = sessions st \<and>
         username u = username d \<and>
         varchar_null 255 (email d) = Inr (email u) \<and>
         varchar_null 20 (phone d) = Inr (phone u) \<and>
         varchar_null 100 (authCode d) = Inr (authCode u)"
proof -
  from assms(1) have
    ins: "insert_users st (now E) d = (st', None)" and
    fnd: "find (\<lambda>r. username r = username d) (users st') = Some u"
    by (auto simp add: createUser_def userDbSchema_parse_def
        split: sum.splits option.splits if_splits prod.splits)
  from insert_users_None [OF ins] obtain row where
    row: "users st' = users st @ [row]" "sessions st' = sessions st"
      "varchar_null 255 (email d) = Inr (email row)"
      "varchar_null 20 (phone d) = Inr (phone row)"
      "varchar_null 100 (authCode d) = Inr (authCode row)"
    by blast
  from find_append_new [OF assms(2)] fnd row(1) have "u = row \<and> username row = username d"
    by simp
  with row show ?thesis by simp
qed

lemma register_handler_201:
  assumes "snd (register_handler E st req) = Json 201 b"
  shows "\<exists>u. users (fst (register_handler E st req)) = users st @ [u] \<and>
           sessions (fst (register_handler E st req)) = (sessions st)(sessionID req \<mapsto> user_id u) \<and>
           getUserByUsername st (str (body_username req)) = None \<and>
           username u = str (body_username req) \<and>
           b = UserJson (userWithoutPassword u) \<and>
           varchar_null 255 (or_null (body_email req)) = Inr (email u) \<and>
           varchar_null 20 (or_null (body_phone req)) = Inr (phone u) \<and>
           varchar_null 100 (or_null (body_authCode req)) = Inr (authCode u)"
proof -
  let ?d = "\<lparr>username = str (body_username req),
             password = hashPassword (scrypt E) (randomBytes16 E) (str (body_password req)),
             firstName = str (body_firstName req),
             lastName = str (body_lastName req),
             email = or_null (body_email req),
             phone = or_null (body_phone req),
             authCode = or_null (body_authCode req)\<rparr>"
  from assms have none: "getUserByUsername st (str (body_username req)) = None"
    by (auto simp add: register_handler_def Let_def split: if_splits option.splits)
  with assms obtain u st1 where
    cu: "createUser E st ?d = (st1, Inr u)" and
    res: "register_handler E st req =
            (st1\<lparr>sessions := (sessions st1)(sessionID req \<mapsto> user_id u)\<rparr>,
             Json 201 (UserJson (userWithoutPassword u)))"
    by (auto simp add: register_handler_def Let_def req_login_def
        split: if_splits sum.splits prod.splits)
  from none have "find (\<lambda>r. username r = username ?d) (users st) = None"
    by (simp add: getUserByUsername_def)
  from createUser_Inr [OF cu this] assms res none show ?thesis
    by simp
qed

section \<open>Properties of the routes\<close>

lemma passport_session_cases:
  "passport_session st req =
     (case sessions st (sessionID req) of
        None \<Rightarrow> Inr None
      | Some i \<Rightarrow>
          (case find (\<lambda>u. user_id u = i) (users st) of
             None \<Rightarrow> Inl (UserNotFound i)
           | Some u \<Rightarrow> Inr (Some u)))"
  by (simp add: passport_session_def deserializeUser_def getUserById_def
      split: option.splits)

lemma route_Inr: "passport_session st req = Inr ru \<Longrightarrow> route st req h = h ru"
  by (simp add: route_def)

lemma route_Inl: "passport_session st req = Inl e \<Longrightarrow> route st req h = (st, Next e)"
  by (simp add: route_def)

lemma route_unbound: "sessions st (sessionID req) = None \<Longrightarrow> route st req h = h None"
  by (simp add: route_def passport_session_def)

lemma route_Json:
  "snd (route st req h) = Json n b \<Longrightarrow>
   \<exists>ru. passport_session st req = Inr ru \<and> route st req h = h ru"
  by (cases "passport_session st req") (simp_all add: route_def)

lemma register_201:
  assumes "snd (api_register E st req) = Json 201 b"
  shows "\<exists>u. users (fst (api_register E st req)) = users st @ [u] \<and>
           sessions (fst (api_register E st req)) = (sessions st)(sessionID req \<mapsto> user_id u) \<and>
           getUserByUsername st (str (body_username req)) = None \<and>
           username u = str (body_username req) \<and>
           b = UserJson (userWithoutPassword u) \<and>
           varchar_null 255 (or_null (body_email req)) = Inr (email u) \<and>
           varchar_null 20 (or_null (body_phone req)) = Inr (phone u) \<and>
           varchar_null 100 (or_null (body_authCode req)) = Inr (authCode u)"
proof -
  from assms obtain ru where "api_register E st req = register_handler E st req"
    unfolding api_register_def by (blast dest: route_Json)
  with assms register_handler_201 [of E st req b] show ?thesis by simp
qed

section \<open>The sample run\<close>

lemma sample_env_fields:
  "scrypt sample_env = sample_scrypt"
  "isEmail sample_env s = (CHR ''@'' \<in> set s)"
  "now sample_env = 1000"
  "length (randomBytes16 sample_env) = 16"
  by (simp_all add: sample_env_def)

lemma sample_digest_length:
  "length (hashPassword sample_scrypt (randomBytes16 sample_env) pw) = 161"
  by (simp add: hashPassword_def Let_def length_toString_hex sample_scrypt_def sample_env_fields)

lemma register_handler_alice:
  "register_handler sample_env empty_state alice_request =
     (alice_state,
      Json 201 (UserJson
        [(''id'', JNumber 1), (''firstName'', JString ''Al''), (''lastName'', JString ''Bo''),
         (''username'', JString ''alice''), (''email'', JString ''a@b.com''),
         (''phone'', JNull), (''authCode'', JNull), (''createdAt'', JDate 1000)]))"
  by (simp add: register_handler_def alice_request_def empty_state_def alice_state_def alice_row_def
      truthy_def str_def or_null_def getUserByUsername_def Let_def createUser_def
      userDbSchema_parse_def insert_users_def users_values_def and_then_def varchar_def
      varchar_null_def
      sample_digest_length req_login_def userWithoutPassword_def rest_without_def
      user_object_def nullable_def sample_env_fields)

lemma register_alice:
  "api_register sample_env empty_state alice_request =
     (alice_state,
      Json 201 (UserJson
        [(''id'', JNumber 1), (''firstName'', JString ''Al''), (''lastName'', JString ''Bo''),
         (''username'', JString ''alice''), (''email'', JString ''a@b.com''),
         (''phone'', JNull), (''authCode'', JNull), (''createdAt'', JDate 1000)]))"
proof -
  have u: "sessions (empty_state) (sessionID alice_request) = None"
    by (simp add: empty_state_def)
  show ?thesis
    unfolding api_register_def route_unbound [OF u] by (rule register_handler_alice)
qed

lemma register_handler_padded:
  "register_handler sample_env empty_state padded_request =
     (\<lparr>users =
         [\<lparr>username = replicate 100 CHR ''a'',
           password = hashPassword sample_scrypt (randomBytes16 sample_env) ''Secret123!'',
           firstName = ''Al'', lastName = ''Bo'', email = Some ''a@b.com'', phone = None,
           authCode = None, user_id = 1, createdAt = 1000\<rparr>],
       users_id_seq = 1, sessions = Map.empty\<rparr>,
      Next FailedToRetrieveInsertedUser)"
  by (simp add: register_handler_def padded_request_def alice_request_def empty_state_def
      truthy_def str_def or_null_def getUserByUsername_def Let_def createUser_def
      userDbSchema_parse_def insert_users_def users_values_def and_then_def varchar_def
      varchar_null_def sample_digest_length sample_env_fields)

lemma register_padded:
  "api_register sample_env empty_state padded_request =
     (\<lparr>users =
         [\<lparr>username = replicate 100 CHR ''a'',
           password = hashPassword sample_scrypt (randomBytes16 sample_env) ''Secret123!'',
           firstName = ''Al'', lastName = ''Bo'', email = Some ''a@b.com'', phone = None,
           authCode = None, user_id = 1, createdAt = 1000\<rparr>],
       users_id_seq = 1, sessions = Map.empty\<rparr>,
      Next FailedToRetrieveInsertedUser)"
proof -
  have u: "sessions (empty_state) (sessionID padded_request) = None"
    by (simp add: empty_state_def)
  show ?thesis
    unfolding api_register_def route_unbound [OF u] by (rule register_handler_padded)
qed

lemma register_handler_padded_again:
  "register_handler sample_env
     \<lparr>users =
         [\<lparr>username = replicate 100 CHR ''a'',
           password = hashPassword sample_scrypt (randomBytes16 sample_env) ''Secret123!'',
           firstName = ''Al'', lastName = ''Bo'', email = Some ''a@b.com'', phone = None,
           authCode = None, user_id = 1, createdAt = 1000\<rparr>],
       users_id_seq = 1, sessions = Map.empty\<rparr>
     padded_request =
     (\<lparr>users =
         [\<lparr>username = replicate 100 CHR ''a'',
           password = hashPassword sample_scrypt (randomBytes16 sample_env) ''Secret123!'',
           firstName = ''Al'', lastName = ''Bo'', email = Some ''a@b.com'', phone = None,
           authCode = None, user_id = 1, createdAt = 1000\<rparr>],
       users_id_seq = 2, sessions = Map.empty\<rparr>,
      Next UniqueViolation)"
  by (simp add: register_handler_def padded_request_def alice_request_def
      truthy_def str_def or_null_def getUserByUsername_def Let_def createUser_def
      userDbSchema_parse_def insert_users_def users_values_def and_then_def varchar_def
      varchar_null_def sample_digest_length sample_env_fields)

lemma register_padded_again:
  "api_register sample_env
     \<lparr>users =
         [\<lparr>username = replicate 100 CHR ''a'',
           password = hashPassword sample_scrypt (randomBytes16 sample_env) ''Secret123!'',
           firstName = ''Al'', lastName = ''Bo'', email = Some ''a@b.com'', phone = None,
           authCode = None, user_id = 1, createdAt = 1000\<rparr>],
       users_id_seq = 1, sessions = Map.empty\<rparr>
     padded_request =
     (\<lparr>users =
         [\<lparr>username = replicate 100 CHR ''a'',
           password = hashPassword sample_scrypt (randomBytes16 sample_env) ''Secret123!'',
           firstName = ''Al'', lastName = ''Bo'', email = Some ''a@b.com'', phone = None,
           authCode = None, user_id = 1, createdAt = 1000\<rparr>],
       users_id_seq = 2, sessions = Map.empty\<rparr>,
      Next UniqueViolation)"
proof -
  have u: "sessions (\<lparr>users =
         [\<lparr>username = replicate 100 CHR ''a'',
           password = hashPassword sample_scrypt (randomBytes16 sample_env) ''Secret123!'',
           firstName = ''Al'', lastName = ''Bo'', email = Some ''a@b.com'', phone = None,
           authCode = None, user_id = 1, createdAt = 1000\<rparr>],
       users_id_seq = 1, sessions = Map.empty\<rparr>) (sessionID padded_request) = None"
    by (simp add: empty_state_def)
  show ?thesis
    unfolding api_register_def route_unbound [OF u] by (rule register_handler_padded_again)
qed

lemma stale_session:
  "sessionID req = ''s9'' \<Longrightarrow> passport_session stale_state req = Inl (UserNotFound 7)"
  by (simp add: passport_session_cases stale_state_def alice_state_def alice_row_def)

lemma alice_session:
  "sessionID req = ''s1'' \<Longrightarrow> passport_session alice_state req = Inr (Some alice_row)"
  by (simp add: passport_session_cases alice_state_def alice_row_def)

lemma no_session:
  "sessionID req = ''s2'' \<Longrightarrow> passport_session alice_state req = Inr None"
  "sessionID req = ''s2'' \<Longrightarrow> passport_session stale_state req = Inr None"
  "passport_session empty_state req = Inr None"
  "passport_session imported_state req = Inr None"
  by (simp_all add: passport_session_cases stale_state_def alice_state_def empty_state_def
      imported_state_def)

section \<open>Properties of the handlers\<close>

lemma userWithoutPassword_fields:
  "userWithoutPassword u =
     [(''id'', JNumber (user_id u)),
      (''firstName'', JString (firstName u)),
      (''lastName'', JString (lastName u)),
      (''username'', JString (username u)),
      (''email'', nullable (email u)),
      (''phone'', nullable (phone u)),
      (''authCode'', nullable (authCode u)),
      (''createdAt'', JDate (createdAt u))]"
  by (simp add: userWithoutPassword_def rest_without_def user_object_def)

lemma userWithoutPassword_excludes: "digest_excluded u (UserJson (userWithoutPassword u))"
  by (simp add: digest_excluded_def userWithoutPassword_fields user_object_def)

lemma find_username_new:
  "find (\<lambda>r. username r = n) xs = None \<Longrightarrow> username u = n \<Longrightarrow>
   find (\<lambda>r. username r = n) (xs @ [u]) = Some u"
  by (induction xs) (auto split: if_splits)

lemma find_username_other:
  "username u \<noteq> n \<Longrightarrow>
   find (\<lambda>r. username r = n) (xs @ [u]) = find (\<lambda>r. username r = n) xs"
  by (induction xs) auto

lemma login_handler_200:
  assumes "snd (login_handler E st req) = Json 200 b"
  shows "\<exists>u. getUserByUsername st (str (body_username req)) = Some u \<and>
           b = UserJson (userWithoutPassword u)"
  using assms
  by (auto simp add: login_handler_def authenticate_local_def verify_def req_login_def
      split: if_splits sum.splits option.splits)

lemma login_200:
  assumes "snd (api_login E st req) = Json 200 b"
  shows "\<exists>u. getUserByUsername st (str (body_username req)) = Some u \<and>
           b = UserJson (userWithoutPassword u)"
proof -
  from assms obtain ru where "api_login E st req = login_handler E st req"
    unfolding api_login_def by (blast dest: route_Json)
  with assms login_handler_200 [of E st req b] show ?thesis by simp
qed

lemma user_200:
  assumes "snd (api_user st req) = Json 200 b"
  shows "\<exists>u. passport_session st req = Inr (Some u) \<and> b = UserJson (userWithoutPassword u)"
proof -
  from assms obtain ru where
    ru: "passport_session st req = Inr ru" "api_user st req = user_handler st ru"
    unfolding api_user_def by (blast dest: route_Json)
  with assms show ?thesis
    by (cases ru) (simp_all add: user_handler_def)
qed

section \<open>Claims about the hasher\<close>

text \<open>
  C2. Verifying a password against its own digest gives true, whatever the key
  derivation and the salt. Verifying another password \<open>Q\<close> against the digest of \<open>P\<close>
  gives false exactly when the key derived from \<open>Q\<close> under the digest's salt has the
  length of the key derived from \<open>P\<close> and differs from it.
\<close>

theorem verify_hash_roundtrip:
  "comparePasswords kd P (hashPassword kd rnd P) = Inr True \<and>
   ((comparePasswords kd Q (hashPassword kd rnd P) = Inr False) =
      (length (kd Q (toString_hex rnd) 64) = length (kd P (toString_hex rnd) 64) \<and>
       kd Q (toString_hex rnd) 64 \<noteq> kd P (toString_hex rnd) 64))"
  by (auto simp add: comparePasswords_hashPassword timingSafeEqual_def)

theorem verify_hash_roundtrip_witness:
  "comparePasswords sample_scrypt ''Secret123!'' (hashPassword sample_scrypt [1, 2] ''Secret123!'') = Inr True \<and>
   comparePasswords sample_scrypt ''secret'' (hashPassword sample_scrypt [1, 2] ''Secret123!'') = Inr False \<and>
   comparePasswords sample_scrypt ''Secret123?'' (hashPassword sample_scrypt [1, 2] ''Secret123!'') \<noteq> Inr False"
  using verify_hash_roundtrip [of sample_scrypt "''Secret123!''" "[1, 2]" "''secret''"]
    verify_hash_roundtrip [of sample_scrypt "''Secret123!''" "[1, 2]" "''Secret123?''"]
  by (simp add: sample_scrypt_def)

text \<open>
  C2, as stated, fails for every key derivation that returns 64 bytes: there are more
  passwords than keys, so two distinct passwords share a key under a given salt, and
  the second verifies against the digest of the first.
\<close>

theorem distinct_passwords_verify_counterexample:
  "\<not> (\<exists>kd :: kdf.
        (\<forall>p s. length (kd p s 64) = 64) \<and>
        (\<forall>rnd P Q. P \<noteq> Q \<longrightarrow> comparePasswords kd Q (hashPassword kd rnd P) = Inr False))"
proof
  assume "\<exists>kd :: kdf.
        (\<forall>p s. length (kd p s 64) = 64) \<and>
        (\<forall>rnd P Q. P \<noteq> Q \<longrightarrow> comparePasswords kd Q (hashPassword kd rnd P) = Inr False)"
  then obtain kd :: kdf where
    len: "\<forall>p s. length (kd p s 64) = 64" and
    never: "\<forall>rnd P Q. P \<noteq> Q \<longrightarrow> comparePasswords kd Q (hashPassword kd rnd P) = Inr False"
    by blast
  from len have "\<forall>p. length (kd p (toString_hex []) 64) = 64" by simp
  then obtain P Q where "P \<noteq> Q" and
    same: "kd P (toString_hex []) 64 = kd Q (toString_hex []) 64"
    using kdf_collision [of "\<lambda>p. kd p (toString_hex []) 64" 64] by blast
  from same have "comparePasswords kd Q (hashPassword kd [] P) = Inr True"
    by (simp add: comparePasswords_hashPassword timingSafeEqual_def)
  moreover from never \<open>P \<noteq> Q\<close> have "comparePasswords kd Q (hashPassword kd [] P) = Inr False"
    by blast
  ultimately show False by simp
qed

text \<open>
  C3. What \<open>comparePasswords\<close> does on any stored string: with no \<open>.\<close> in it the
  call raises (the salt is undefined); otherwise the text before the first \<open>.\<close> is
  hex-decoded and the text between the first and the second \<open>.\<close> is the salt, the call
  raises when the decoded bytes and the derived key differ in length, and returns whether
  they are equal when they do not.
\<close>

theorem comparePasswords_malformed:
  "comparePasswords kd supplied stored =
     (if CHR ''.'' \<notin> set stored then Inl ERR_INVALID_ARG_TYPE
      else if length (from_hex (takeWhile (\<lambda>c. c \<noteq> CHR ''.'') stored)) \<noteq>
              length (kd supplied
                (takeWhile (\<lambda>c. c \<noteq> CHR ''.'') (tl (dropWhile (\<lambda>c. c \<noteq> CHR ''.'') stored))) 64)
      then Inl ERR_CRYPTO_TIMING_SAFE_EQUAL_LENGTH
      else Inr (from_hex (takeWhile (\<lambda>c. c \<noteq> CHR ''.'') stored) =
                kd supplied
                  (takeWhile (\<lambda>c. c \<noteq> CHR ''.'') (tl (dropWhile (\<lambda>c. c \<noteq> CHR ''.'') stored))) 64))"
  by (simp add: comparePasswords_parts timingSafeEqual_def)

theorem comparePasswords_malformed_witness:
  "comparePasswords sample_scrypt ''Secret123!'' ''0a0a.0102'' = Inl ERR_CRYPTO_TIMING_SAFE_EQUAL_LENGTH \<and>
   comparePasswords sample_scrypt ''Secret123!'' ''0a0a0102'' = Inl ERR_INVALID_ARG_TYPE"
  using comparePasswords_malformed [of sample_scrypt "''Secret123!''" "''0a0a.0102''"]
    comparePasswords_malformed [of sample_scrypt "''Secret123!''" "''0a0a0102''"]
  by (simp add: sample_scrypt_def hex_val_def)

text \<open>
  C3, as stated, fails: a stored string with no \<open>.\<close> separator makes the call raise
  instead of returning false, whatever the key derivation.
\<close>

theorem malformed_digest_raises_counterexample:
  "\<forall>kd :: kdf. comparePasswords kd ''Secret123!'' ''0a0a0102'' = Inl ERR_INVALID_ARG_TYPE"
  by (simp add: comparePasswords_def)

text \<open>
  C10. The empty password is hashed like any other: with 16 random bytes and a 64-byte
  key the digest is 128 lower-case hex digits, a \<open>.\<close>, and 32 lower-case hex digits, and
  the empty password verifies against it.
\<close>

theorem hash_empty_password:
  assumes "length rnd = 16" and "length (kd [] (toString_hex rnd) 64) = 64"
  shows "\<exists>h s. hashPassword kd rnd [] = h @ ''.'' @ s \<and>
           length h = 128 \<and> length s = 32 \<and>
           list_all is_hex_lower h \<and> list_all is_hex_lower s \<and>
           comparePasswords kd [] (hashPassword kd rnd []) = Inr True"
proof (intro exI conjI)
  show "hashPassword kd rnd [] =
          toString_hex (kd [] (toString_hex rnd) 64) @ ''.'' @ toString_hex rnd"
    by (simp add: hashPassword_def Let_def)
  show "length (toString_hex (kd [] (toString_hex rnd) 64)) = 128"
    using assms(2) by (simp add: length_toString_hex)
  show "length (toString_hex rnd) = 32"
    using assms(1) by (simp add: length_toString_hex)
  show "list_all is_hex_lower (toString_hex (kd [] (toString_hex rnd) 64))"
    by (rule toString_hex_lower)
  show "list_all is_hex_lower (toString_hex rnd)"
    by (rule toString_hex_lower)
  show "comparePasswords kd [] (hashPassword kd rnd []) = Inr True"
    by (simp add: comparePasswords_hashPassword timingSafeEqual_def)
qed

theorem hash_empty_password_witness:
  "\<exists>h s. hashPassword sample_scrypt (randomBytes16 sample_env) [] = h @ ''.'' @ s \<and>
           length h = 128 \<and> length s = 32 \<and>
           list_all is_hex_lower h \<and> list_all is_hex_lower s \<and>
           comparePasswords sample_scrypt [] (hashPassword sample_scrypt (randomBytes16 sample_env) []) = Inr True"
proof -
  have a: "length (randomBytes16 sample_env) = 16"
    by (simp add: sample_env_def)
  have b: "length (sample_scrypt [] (toString_hex (randomBytes16 sample_env)) 64) = 64"
    by (simp add: sample_scrypt_def)
  from hash_empty_password [of "randomBytes16 sample_env" sample_scrypt, OF a b] show ?thesis .
qed

section \<open>Claims about the handlers\<close>

text \<open>
  C1. Registration does not look at the challenge signal: \<open>alice_request\<close> carries no
  \<open>captchaToken\<close>, and on the empty directory the handler answers 201, stores the
  account and binds the session to it. The login handler does refuse such a request.
\<close>

theorem register_without_captcha:
  "body_captchaToken alice_request = None \<and>
   api_register sample_env empty_state alice_request =
     (alice_state,
      Json 201 (UserJson
        [(''id'', JNumber 1), (''firstName'', JString ''Al''), (''lastName'', JString ''Bo''),
         (''username'', JString ''alice''), (''email'', JString ''a@b.com''),
         (''phone'', JNull), (''authCode'', JNull), (''createdAt'', JDate 1000)])) \<and>
   users alice_state = [alice_row] \<and>
   sessions alice_state ''s1'' = Some (user_id alice_row) \<and>
   api_login sample_env alice_state alice_request =
     (alice_state, Json 400 (Message ''CAPTCHA verification is required''))"
proof -
  have s: "sessionID alice_request = ''s1''" and c: "body_captchaToken alice_request = None"
    by (simp_all add: alice_request_def)
  have "api_login sample_env alice_state alice_request =
     (alice_state, Json 400 (Message ''CAPTCHA verification is required''))"
    unfolding api_login_def route_Inr [OF alice_session [OF s]]
    by (simp add: login_handler_def c truthy_def)
  with c show ?thesis
    by (simp add: register_alice) (simp add: alice_state_def alice_row_def)
qed

theorem register_without_captcha_witness:
  "snd (api_register sample_env empty_state alice_request) \<noteq>
     Json 400 (Message ''CAPTCHA verification is required'') \<and>
   getUserByUsername (fst (api_register sample_env empty_state alice_request)) ''alice'' =
     Some alice_row"
  using register_without_captcha
  by (simp add: getUserByUsername_def alice_row_def)

text \<open>
  C4. For login requests that carry the captcha token and that \<open>passport.session()\<close>
  lets through: a login whose username is not in the directory is answered 401 with the
  message "Invalid username or password", and so is a login whose username is there when
  \<open>comparePasswords\<close> returns false on the stored digest; both leave the state as it
  was. When \<open>comparePasswords\<close> raises on the stored digest, the login with the existing
  username ends in that error instead.
\<close>

theorem login_rejections:
  assumes "truthy (body_captchaToken r1)" and "truthy (body_captchaToken r2)"
    and "passport_session st r1 = Inr ru1" and "passport_session st r2 = Inr ru2"
    and "getUserByUsername st (str (body_username r1)) = None"
    and "getUserByUsername st (str (body_username r2)) = Some u"
  shows "api_login E st r1 = (st, Json 401 (Message ''Invalid username or password'')) \<and>
         (comparePasswords (scrypt E) (str (body_password r2)) (password u) = Inr False \<longrightarrow>
            api_login E st r2 = (st, Json 401 (Message ''Invalid username or password''))) \<and>
         (truthy (body_username r2) \<and> truthy (body_password r2) \<and>
          comparePasswords (scrypt E) (str (body_password r2)) (password u) = Inl e \<longrightarrow>
            api_login E st r2 = (st, Next e))"
  using assms
  by (simp add: api_login_def route_Inr login_handler_def authenticate_local_def verify_def)

theorem login_rejections_witness:
  "(let st1 = fst (api_register sample_env empty_state alice_request)
    in api_login sample_env st1 (login_request ''bob'' ''Secret123!'') =
         (st1, Json 401 (Message ''Invalid username or password'')) \<and>
       api_login sample_env st1 (login_request ''alice'' ''wrong'') =
         (st1, Json 401 (Message ''Invalid username or password''))) \<and>
   api_login sample_env imported_state (login_request ''carol'' ''P.ssw0rd'') =
     (imported_state, Next ERR_CRYPTO_TIMING_SAFE_EQUAL_LENGTH)"
proof -
  have c: "truthy (body_captchaToken (login_request n p))" for n p
    by (simp add: login_request_def truthy_def)
  have f: "str (body_username (login_request n p)) = n" "str (body_password (login_request n p)) = p"
    "sessionID (login_request n p) = ''s2''" for n p
    by (simp_all add: login_request_def str_def)
  note s = no_session(1) [OF f(3)]
  have a: "getUserByUsername alice_state (str (body_username (login_request ''bob'' ''Secret123!''))) = None"
    by (simp add: f getUserByUsername_def alice_state_def alice_row_def)
  have b: "getUserByUsername alice_state (str (body_username (login_request ''alice'' ''wrong''))) = Some alice_row"
    by (simp add: f getUserByUsername_def alice_state_def alice_row_def)
  have "comparePasswords sample_scrypt ''wrong'' (password alice_row) = Inr False"
    by (simp add: alice_row_def comparePasswords_hashPassword timingSafeEqual_def sample_scrypt_def)
  then have d: "comparePasswords (scrypt sample_env)
      (str (body_password (login_request ''alice'' ''wrong''))) (password alice_row) = Inr False"
    by (simp add: f sample_env_fields)
  have a': "getUserByUsername imported_state (str (body_username (login_request ''dave'' ''x''))) = None"
    by (simp add: f getUserByUsername_def imported_state_def carol_row_def)
  have b': "getUserByUsername imported_state (str (body_username (login_request ''carol'' ''P.ssw0rd''))) = Some carol_row"
    by (simp add: f getUserByUsername_def imported_state_def carol_row_def)
  have t: "truthy (body_username (login_request ''carol'' ''P.ssw0rd''))"
    "truthy (body_password (login_request ''carol'' ''P.ssw0rd''))"
    by (simp_all add: login_request_def truthy_def)
  have "comparePasswords sample_scrypt ''P.ssw0rd'' (password carol_row) =
          Inl ERR_CRYPTO_TIMING_SAFE_EQUAL_LENGTH"
    by (simp add: carol_row_def comparePasswords_def timingSafeEqual_def sample_scrypt_def
        hex_val_def)
  then have d': "comparePasswords (scrypt sample_env)
      (str (body_password (login_request ''carol'' ''P.ssw0rd''))) (password carol_row) =
        Inl ERR_CRYPTO_TIMING_SAFE_EQUAL_LENGTH"
    by (simp add: f sample_env_fields)
  from login_rejections [OF c c s s a b, of sample_env] d
    login_rejections [OF c c no_session(4) no_session(4) a' b',
      of sample_env ERR_CRYPTO_TIMING_SAFE_EQUAL_LENGTH] t d'
  show ?thesis
    by (simp add: register_alice Let_def)
qed

text \<open>
  C4, as stated, fails in two ways. On an account whose stored password is not a digest,
  \<open>comparePasswords\<close> raises whatever password is supplied: the login for \<open>carol\<close>
  ends in the error while the login for a username that does not exist is answered 401.
  And a login sent on the session \<open>s9\<close>, bound to an account that is gone, ends in the
  error of \<open>getUserById\<close> before the route, while the same wrong login on a fresh
  session is answered 401.
\<close>

theorem login_reveals_imported_account_counterexample:
  "getUserByUsername imported_state ''dave'' = None \<and>
   getUserByUsername imported_state ''carol'' = Some carol_row \<and>
   api_login sample_env imported_state (login_request ''dave'' ''guess'') =
     (imported_state, Json 401 (Message ''Invalid username or password'')) \<and>
   api_login sample_env imported_state (login_request ''carol'' ''guess'') =
     (imported_state, Next ERR_CRYPTO_TIMING_SAFE_EQUAL_LENGTH) \<and>
   api_login sample_env stale_state (login_request ''bob'' ''guess'') =
     (stale_state, Json 401 (Message ''Invalid username or password'')) \<and>
   api_login sample_env stale_state ((login_request ''alice'' ''guess'')\<lparr>sessionID := ''s9''\<rparr>) =
     (stale_state, Next (UserNotFound 7))"
proof -
  have 1: "getUserByUsername imported_state ''dave'' = None"
    "getUserByUsername imported_state ''carol'' = Some carol_row"
    by (simp_all add: getUserByUsername_def imported_state_def carol_row_def)
  have s2: "sessionID (login_request n p) = ''s2''" for n p
    by (simp add: login_request_def)
  have 2: "api_login sample_env imported_state (login_request ''dave'' ''guess'') =
     (imported_state, Json 401 (Message ''Invalid username or password''))"
    unfolding api_login_def route_Inr [OF no_session(4)]
    by (simp add: login_handler_def authenticate_local_def verify_def login_request_def
        truthy_def str_def 1)
  have 3: "api_login sample_env imported_state (login_request ''carol'' ''guess'') =
     (imported_state, Next ERR_CRYPTO_TIMING_SAFE_EQUAL_LENGTH)"
    unfolding api_login_def route_Inr [OF no_session(4)]
    by (simp add: login_handler_def authenticate_local_def verify_def login_request_def
        truthy_def str_def 1)
       (simp add: carol_row_def comparePasswords_def timingSafeEqual_def sample_env_fields
        sample_scrypt_def hex_val_def)
  have 4: "api_login sample_env stale_state (login_request ''bob'' ''guess'') =
     (stale_state, Json 401 (Message ''Invalid username or password''))"
    unfolding api_login_def route_Inr [OF no_session(2) [OF s2]]
    by (simp add: login_handler_def authenticate_local_def verify_def login_request_def
        truthy_def str_def getUserByUsername_def stale_state_def alice_state_def alice_row_def)
  have 5: "api_login sample_env stale_state ((login_request ''alice'' ''guess'')\<lparr>sessionID := ''s9''\<rparr>) =
     (stale_state, Next (UserNotFound 7))"
    unfolding api_login_def by (rule route_Inl) (simp add: stale_session)
  from 1 2 3 4 5 show ?thesis by simp
qed

text \<open>
  C5. A registration request with a falsy (absent or empty) firstName, lastName,
  username or password, or with email and phone both falsy, or with password different
  from confirmPassword, leaves the state unchanged: no account, no session. When
  \<open>passport.session()\<close> lets the request through it is answered 400 with one of the
  three validation messages; when the request's session is bound to an account that is
  gone, it ends in the error of \<open>getUserById\<close> before the route.
\<close>

theorem register_validation:
  assumes "\<not> truthy (body_firstName req) \<or> \<not> truthy (body_lastName req) \<or>
           \<not> truthy (body_username req) \<or> \<not> truthy (body_password req) \<or>
           (\<not> truthy (body_email req) \<and> \<not> truthy (body_phone req)) \<or>
           body_password req \<noteq> body_confirmPassword req"
  shows "fst (api_register E st req) = st \<and>
         (passport_session st req = Inr ru \<longrightarrow>
            snd (api_register E st req) \<in>
              {Json 400 (Message
                 ''Missing required fields: username, password, firstName, and lastName are required''),
               Json 400 (Message ''Either email or phone number is required''),
               Json 400 (Message ''Passwords do not match'')}) \<and>
         (passport_session st req = Inl e \<longrightarrow> snd (api_register E st req) = Next e)"
proof -
  from assms have h: "fst (register_handler E st req) = st \<and>
      snd (register_handler E st req) \<in>
        {Json 400 (Message
           ''Missing required fields: username, password, firstName, and lastName are required''),
         Json 400 (Message ''Either email or phone number is required''),
         Json 400 (Message ''Passwords do not match'')}"
    by (auto simp add: register_handler_def)
  show ?thesis
  proof (cases "passport_session st req")
    case (Inl e')
    then show ?thesis by (simp add: api_register_def route_Inl)
  next
    case (Inr ru')
    with h show ?thesis by (simp add: api_register_def route_Inr)
  qed
qed

theorem register_validation_witness:
  "api_register sample_env empty_state (alice_request\<lparr>body_email := Some '''', body_phone := Some ''''\<rparr>) =
     (empty_state, Json 400 (Message ''Either email or phone number is required'')) \<and>
   api_register sample_env stale_state
       (alice_request\<lparr>body_email := Some '''', body_phone := Some '''', sessionID := ''s9''\<rparr>) =
     (stale_state, Next (UserNotFound 7))"
proof -
  let ?r = "alice_request\<lparr>body_email := Some '''', body_phone := Some ''''\<rparr>"
  let ?r9 = "alice_request\<lparr>body_email := Some '''', body_phone := Some '''', sessionID := ''s9''\<rparr>"
  have h: "\<not> truthy (body_firstName r) \<or> \<not> truthy (body_lastName r) \<or>
           \<not> truthy (body_username r) \<or> \<not> truthy (body_password r) \<or>
           (\<not> truthy (body_email r) \<and> \<not> truthy (body_phone r)) \<or>
           body_password r \<noteq> body_confirmPassword r" if "r = ?r \<or> r = ?r9" for r
    using that by (auto simp add: truthy_def)
  have "snd (register_handler sample_env empty_state ?r) \<noteq> Json 400 (Message
          ''Missing required fields: username, password, firstName, and lastName are required'')"
    and "snd (register_handler sample_env empty_state ?r) \<noteq> Json 400 (Message ''Passwords do not match'')"
    by (simp_all add: register_handler_def alice_request_def truthy_def)
  then have n: "snd (api_register sample_env empty_state ?r) \<noteq> Json 400 (Message
          ''Missing required fields: username, password, firstName, and lastName are required'')"
    "snd (api_register sample_env empty_state ?r) \<noteq> Json 400 (Message ''Passwords do not match'')"
    by (simp_all add: api_register_def route_Inr [OF no_session(3)])
  have s9: "passport_session stale_state ?r9 = Inl (UserNotFound 7)"
    by (rule stale_session) simp
  from register_validation [OF h, of ?r sample_env empty_state None] n no_session(3) [of ?r]
  have 1: "api_register sample_env empty_state ?r =
     (empty_state, Json 400 (Message ''Either email or phone number is required''))"
    by (simp add: prod_eq_iff)
  from register_validation [OF h, of ?r9 sample_env stale_state _ "UserNotFound 7"] s9
  have 2: "api_register sample_env stale_state ?r9 = (stale_state, Next (UserNotFound 7))"
    by (simp add: prod_eq_iff)
  from 1 2 show ?thesis by simp
qed

text \<open>
  C5, as stated, fails for a request sent on the session \<open>s9\<close>, bound to an account
  that is gone: with email and phone both empty it ends in the error of \<open>getUserById\<close>,
  not in a validation message.
\<close>

theorem register_stale_session_counterexample:
  "\<not> truthy (body_email (alice_request\<lparr>body_email := Some '''', body_phone := Some '''',
        sessionID := ''s9''\<rparr>)) \<and>
   \<not> truthy (body_phone (alice_request\<lparr>body_email := Some '''', body_phone := Some '''',
        sessionID := ''s9''\<rparr>)) \<and>
   api_register sample_env stale_state
       (alice_request\<lparr>body_email := Some '''', body_phone := Some '''', sessionID := ''s9''\<rparr>) =
     (stale_state, Next (UserNotFound 7))"
proof -
  have "api_register sample_env stale_state
       (alice_request\<lparr>body_email := Some '''', body_phone := Some '''', sessionID := ''s9''\<rparr>) =
     (stale_state, Next (UserNotFound 7))"
    unfolding api_register_def by (rule route_Inl) (simp add: stale_session)
  then show ?thesis by (simp add: truthy_def)
qed

text \<open>
  C6. After a registration that succeeded, a further registration request that
  \<open>passport.session()\<close> lets through, that passes the field checks and that carries
  the same username is answered 400 with the message "Username already exists" and
  changes nothing; the directory then holds exactly one account with that username, and
  which other usernames are taken is as before, so a name that differs only in case is
  not a duplicate.
\<close>

theorem register_same_username_twice:
  assumes "snd (api_register E st req) = Json 201 b"
    and "body_username req2 = body_username req"
    and "passport_session (fst (api_register E st req)) req2 = Inr ru"
    and "truthy (body_password req2)" and "truthy (body_firstName req2)"
    and "truthy (body_lastName req2)"
    and "truthy (body_email req2) \<or> truthy (body_phone req2)"
    and "body_password req2 = body_confirmPassword req2"
  shows "api_register E2 (fst (api_register E st req)) req2 =
           (fst (api_register E st req), Json 400 (Message ''Username already exists'')) \<and>
         length (filter (\<lambda>a. username a = str (body_username req))
                   (users (fst (api_register E st req)))) = 1 \<and>
         (\<forall>name. name \<noteq> str (body_username req) \<longrightarrow>
            getUserByUsername (fst (api_register E st req)) name = getUserByUsername st name)"
proof -
  let ?st' = "fst (api_register E st req)"
  let ?n = "str (body_username req)"
  from register_201 [OF assms(1)] obtain u where
    u: "users ?st' = users st @ [u]" "getUserByUsername st ?n = None" "username u = ?n"
    by blast
  from u(2) have none: "find (\<lambda>r. username r = ?n) (users st) = None"
    by (simp add: getUserByUsername_def)
  from find_username_new [OF none u(3)] u(1) have found: "getUserByUsername ?st' ?n = Some u"
    by (simp add: getUserByUsername_def)
  from assms(1) obtain ru0 where "api_register E st req = register_handler E st req"
    unfolding api_register_def by (blast dest: route_Json)
  with assms(1) have "truthy (body_username req)"
    by (auto simp add: register_handler_def split: if_splits)
  with assms(2,4-8) found
  have "register_handler E2 ?st' req2 = (?st', Json 400 (Message ''Username already exists''))"
    by (auto simp add: register_handler_def)
  moreover have "api_register E2 ?st' req2 = register_handler E2 ?st' req2"
    using route_Inr [OF assms(3), of "\<lambda>req_user. register_handler E2 ?st' req2"]
    by (simp only: api_register_def [of E2 ?st' req2])
  ultimately
  have "api_register E2 ?st' req2 = (?st', Json 400 (Message ''Username already exists''))"
    by simp
  moreover from find_None_filter [OF none] u(1,3)
  have "length (filter (\<lambda>a. username a = ?n) (users ?st')) = 1"
    by simp
  moreover have "\<forall>name. name \<noteq> ?n \<longrightarrow> getUserByUsername ?st' name = getUserByUsername st name"
    using u(1,3) by (simp add: getUserByUsername_def find_username_other)
  ultimately show ?thesis by blast
qed

theorem register_same_username_twice_witness:
  "(let st1 = fst (api_register sample_env empty_state alice_request)
    in snd (api_register sample_env empty_state alice_request) =
         Json 201 (UserJson
           [(''id'', JNumber 1), (''firstName'', JString ''Al''), (''lastName'', JString ''Bo''),
            (''username'', JString ''alice''), (''email'', JString ''a@b.com''),
            (''phone'', JNull), (''authCode'', JNull), (''createdAt'', JDate 1000)]) \<and>
       api_register sample_env st1 alice_request =
         (st1, Json 400 (Message ''Username already exists'')) \<and>
       length (filter (\<lambda>a. username a = ''alice'') (users st1)) = 1 \<and>
       getUserByUsername st1 ''Alice'' = None)"
proof -
  have first: "snd (api_register sample_env empty_state alice_request) =
      Json 201 (UserJson
        [(''id'', JNumber 1), (''firstName'', JString ''Al''), (''lastName'', JString ''Bo''),
         (''username'', JString ''alice''), (''email'', JString ''a@b.com''),
         (''phone'', JNull), (''authCode'', JNull), (''createdAt'', JDate 1000)])"
    by (simp add: register_alice)
  have valid: "truthy (body_password alice_request)" "truthy (body_firstName alice_request)"
    "truthy (body_lastName alice_request)"
    "truthy (body_email alice_request) \<or> truthy (body_phone alice_request)"
    "body_password alice_request = body_confirmPassword alice_request"
    by (simp_all add: alice_request_def truthy_def)
  have name: "str (body_username alice_request) = ''alice''" "sessionID alice_request = ''s1''"
    by (simp_all add: alice_request_def str_def)
  have sess: "passport_session (fst (api_register sample_env empty_state alice_request))
      alice_request = Inr (Some alice_row)"
    by (simp add: register_alice alice_session name)
  have empty: "getUserByUsername empty_state ''Alice'' = None"
    by (simp add: getUserByUsername_def empty_state_def)
  from register_same_username_twice [OF first refl sess valid, of sample_env] empty first
  show ?thesis
    by (simp add: name Let_def)
qed

text \<open>
  C6, as stated, fails in two ways. When the first call did not succeed: the username of
  \<open>padded_request\<close> is stored cut to the 100 characters of its column, \<open>createUser\<close>
  does not find it again and throws with the row left in the table; the second call
  finds no account under the username either, and its insert is refused by the unique
  constraint; neither call is answered "Username already exists", and no account has
  that username. And a registration for the username \<open>alice\<close>, which is taken, sent on
  the session \<open>s9\<close>, bound to an account that is gone, ends in the error of
  \<open>getUserById\<close> before the route.
\<close>

theorem padded_username_twice_counterexample:
  "(let st1 = fst (api_register sample_env empty_state padded_request);
        st2 = fst (api_register sample_env st1 padded_request)
    in snd (api_register sample_env empty_state padded_request) =
         Next FailedToRetrieveInsertedUser \<and>
       snd (api_register sample_env st1 padded_request) = Next UniqueViolation \<and>
       map username (users st2) = [replicate 100 CHR ''a''] \<and>
       filter (\<lambda>a. username a = str (body_username padded_request)) (users st2) = []) \<and>
   getUserByUsername stale_state ''alice'' = Some alice_row \<and>
   api_register sample_env stale_state (alice_request\<lparr>sessionID := ''s9''\<rparr>) =
     (stale_state, Next (UserNotFound 7))"
proof -
  have 1: "(let st1 = fst (api_register sample_env empty_state padded_request);
        st2 = fst (api_register sample_env st1 padded_request)
    in snd (api_register sample_env empty_state padded_request) =
         Next FailedToRetrieveInsertedUser \<and>
       snd (api_register sample_env st1 padded_request) = Next UniqueViolation \<and>
       map username (users st2) = [replicate 100 CHR ''a''] \<and>
       filter (\<lambda>a. username a = str (body_username padded_request)) (users st2) = [])"
    unfolding Let_def register_padded fst_conv snd_conv register_padded_again
    by (simp add: padded_request_def str_def)
  have 2: "getUserByUsername stale_state ''alice'' = Some alice_row"
    by (simp add: getUserByUsername_def stale_state_def alice_state_def alice_row_def)
  have 3: "api_register sample_env stale_state (alice_request\<lparr>sessionID := ''s9''\<rparr>) =
     (stale_state, Next (UserNotFound 7))"
    unfolding api_register_def by (rule route_Inl) (simp add: stale_session)
  from 1 2 3 show ?thesis by blast
qed

text \<open>
  C7. Every success response of registration (201), login (200) and current-user (200)
  carries the account concerned with the digest excluded: the keys of the row without
  \<open>password\<close>, each with the row's value.
\<close>

theorem responses_exclude_digest:
  "(snd (api_register E st req) = Json 201 b \<longrightarrow>
      (\<exists>u. getUserByUsername (fst (api_register E st req)) (str (body_username req)) = Some u \<and>
           digest_excluded u b)) \<and>
   (snd (api_login E st req) = Json 200 b \<longrightarrow>
      (\<exists>u. getUserByUsername st (str (body_username req)) = Some u \<and> digest_excluded u b)) \<and>
   (snd (api_user st req) = Json 200 b \<longrightarrow>
      (\<exists>i u. sessions st (sessionID req) = Some i \<and> getUserById st i = Inr u \<and>
             digest_excluded u b))"
proof (intro conjI impI)
  assume ok: "snd (api_register E st req) = Json 201 b"
  let ?st' = "fst (api_register E st req)"
  let ?n = "str (body_username req)"
  from register_201 [OF ok] obtain u where
    u: "users ?st' = users st @ [u]" "getUserByUsername st ?n = None" "username u = ?n"
      "b = UserJson (userWithoutPassword u)"
    by blast
  from u(2) have "find (\<lambda>r. username r = ?n) (users st) = None"
    by (simp add: getUserByUsername_def)
  from find_username_new [OF this u(3)] u(1) have "getUserByUsername ?st' ?n = Some u"
    by (simp add: getUserByUsername_def)
  with u(4) show "\<exists>u. getUserByUsername ?st' ?n = Some u \<and> digest_excluded u b"
    by (auto simp add: userWithoutPassword_excludes)
next
  assume "snd (api_login E st req) = Json 200 b"
  from login_200 [OF this]
  show "\<exists>u. getUserByUsername st (str (body_username req)) = Some u \<and> digest_excluded u b"
    by (auto simp add: userWithoutPassword_excludes)
next
  assume "snd (api_user st req) = Json 200 b"
  from user_200 [OF this] obtain u where
    u: "passport_session st req = Inr (Some u)" "b = UserJson (userWithoutPassword u)"
    by blast
  from u(1) obtain i where "sessions st (sessionID req) = Some i" "getUserById st i = Inr u"
    by (auto simp add: passport_session_def deserializeUser_def split: option.splits sum.splits)
  with u(2)
  show "\<exists>i u. sessions st (sessionID req) = Some i \<and> getUserById st i = Inr u \<and>
             digest_excluded u b"
    by (auto simp add: userWithoutPassword_excludes)
qed

theorem responses_exclude_digest_witness:
  "(let st1 = fst (api_register sample_env empty_state alice_request);
        b = UserJson
          [(''id'', JNumber 1), (''firstName'', JString ''Al''), (''lastName'', JString ''Bo''),
           (''username'', JString ''alice''), (''email'', JString ''a@b.com''),
           (''phone'', JNull), (''authCode'', JNull), (''createdAt'', JDate 1000)]
    in snd (api_register sample_env empty_state alice_request) = Json 201 b \<and>
       snd (api_login sample_env st1 (login_request ''alice'' ''Secret123!'')) = Json 200 b \<and>
       snd (api_user st1 alice_request) = Json 200 b \<and>
       (\<exists>u. getUserByUsername st1 ''alice'' = Some u \<and> digest_excluded u b) \<and>
       (\<exists>u. getUserById st1 1 = Inr u \<and> digest_excluded u b))"
proof -
  let ?b = "UserJson
        [(''id'', JNumber 1), (''firstName'', JString ''Al''), (''lastName'', JString ''Bo''),
         (''username'', JString ''alice''), (''email'', JString ''a@b.com''),
         (''phone'', JNull), (''authCode'', JNull), (''createdAt'', JDate 1000)]"
  let ?l = "login_request ''alice'' ''Secret123!''"
  have r: "snd (api_register sample_env empty_state alice_request) = Json 201 ?b"
    by (simp add: register_alice)
  have "comparePasswords sample_scrypt ''Secret123!'' (password alice_row) = Inr True"
    by (simp add: alice_row_def comparePasswords_hashPassword timingSafeEqual_def)
  then have "snd (login_handler sample_env alice_state ?l) = Json 200 ?b"
    by (simp add: login_handler_def authenticate_local_def verify_def login_request_def truthy_def
        str_def getUserByUsername_def alice_state_def sample_env_fields req_login_def
        userWithoutPassword_fields)
       (simp add: alice_row_def nullable_def)
  moreover have "sessionID ?l = ''s2''"
    by (simp add: login_request_def)
  ultimately have l: "snd (api_login sample_env alice_state ?l) = Json 200 ?b"
    by (simp add: api_login_def route_Inr [OF no_session(1)])
  have s1: "sessionID alice_request = ''s1''"
    by (simp add: alice_request_def)
  have g: "snd (api_user alice_state alice_request) = Json 200 ?b"
    unfolding api_user_def route_Inr [OF alice_session [OF s1]]
    by (simp add: user_handler_def userWithoutPassword_fields alice_row_def nullable_def)
  have n: "str (body_username alice_request) = ''alice''" "str (body_username ?l) = ''alice''"
    "sessionID alice_request = ''s1''" "sessions alice_state ''s1'' = Some 1"
    by (simp_all add: alice_request_def login_request_def str_def alice_state_def)
  from responses_exclude_digest [of sample_env empty_state alice_request ?b] r
  have 1: "\<exists>u. getUserByUsername alice_state ''alice'' = Some u \<and> digest_excluded u ?b"
    by (simp add: register_alice n)
  from responses_exclude_digest [of sample_env alice_state ?l ?b] l
  have 2: "\<exists>u. getUserByUsername alice_state ''alice'' = Some u \<and> digest_excluded u ?b"
    by (simp add: n)
  from responses_exclude_digest [of sample_env alice_state alice_request ?b] g
  have 3: "\<exists>u. getUserById alice_state 1 = Inr u \<and> digest_excluded u ?b"
    by (simp add: n)
  from 1 2 3 r l g show ?thesis by (simp add: register_alice Let_def)
qed

text \<open>
  C8. Logout answers 200 and leaves the session id unbound, the accounts untouched,
  when the id is bound to no session or to an account that is in the directory. When
  the id is bound to an account that is not in the directory, the request ends in the
  error of \<open>getUserById\<close> and the state stays as it was. In every case a second logout
  gives what the first gave.
\<close>

theorem logout_succeeds_unless_dangling:
  "(sessions st (sessionID req) = None \<longrightarrow> api_logout st req = (st, SendStatus 200)) \<and>
   (sessions st (sessionID req) = Some i \<and> getUserById st i = Inr u \<longrightarrow>
      snd (api_logout st req) = SendStatus 200 \<and>
      sessions (fst (api_logout st req)) = (sessions st)(sessionID req := None) \<and>
      users (fst (api_logout st req)) = users st) \<and>
   (sessions st (sessionID req) = Some i \<and> getUserById st i = Inl e \<longrightarrow>
      api_logout st req = (st, Next e)) \<and>
   api_logout (fst (api_logout st req)) req = api_logout st req"
proof (intro conjI impI)
  assume "sessions st (sessionID req) = None"
  then have "(sessions st)(sessionID req := None) = sessions st"
    by (simp add: fun_upd_idem_iff)
  with \<open>sessions st (sessionID req) = None\<close> show "api_logout st req = (st, SendStatus 200)"
    by (simp add: api_logout_def route_def logout_handler_def passport_session_def
        req_logout_def)
next
  assume "sessions st (sessionID req) = Some i \<and> getUserById st i = Inr u"
  then show "snd (api_logout st req) = SendStatus 200"
    and "sessions (fst (api_logout st req)) = (sessions st)(sessionID req := None)"
    and "users (fst (api_logout st req)) = users st"
    by (simp_all add: api_logout_def route_def logout_handler_def passport_session_def
        deserializeUser_def req_logout_def)
next
  assume "sessions st (sessionID req) = Some i \<and> getUserById st i = Inl e"
  then show "api_logout st req = (st, Next e)"
    by (simp add: api_logout_def route_def passport_session_def deserializeUser_def)
next
  show "api_logout (fst (api_logout st req)) req = api_logout st req"
    by (simp add: api_logout_def route_def logout_handler_def passport_session_def
        deserializeUser_def req_logout_def split: option.splits sum.splits)
qed

theorem logout_succeeds_unless_dangling_witness:
  "(let st1 = fst (api_register sample_env empty_state alice_request)
    in api_logout empty_state alice_request = (empty_state, SendStatus 200) \<and>
       snd (api_logout st1 alice_request) = SendStatus 200 \<and>
       sessions st1 ''s1'' = Some 1 \<and>
       sessions (fst (api_logout st1 alice_request)) ''s1'' = None \<and>
       users (fst (api_logout st1 alice_request)) = users st1 \<and>
       snd (api_user (fst (api_logout st1 alice_request)) alice_request) =
         Json 401 (Message ''Not authenticated'') \<and>
       api_logout (fst (api_logout st1 alice_request)) alice_request =
         api_logout st1 alice_request) \<and>
   api_logout stale_state (alice_request\<lparr>sessionID := ''s9''\<rparr>) =
     (stale_state, Next (UserNotFound 7))"
proof -
  let ?r9 = "alice_request\<lparr>sessionID := ''s9''\<rparr>"
  have s: "sessionID alice_request = ''s1''" "sessionID ?r9 = ''s9''"
    by (simp_all add: alice_request_def)
  have e: "sessions empty_state (sessionID alice_request) = None"
    by (simp add: empty_state_def)
  have a: "sessions alice_state (sessionID alice_request) = Some 1 \<and>
           getUserById alice_state 1 = Inr alice_row"
    by (simp add: s alice_state_def getUserById_def alice_row_def)
  have d: "sessions stale_state (sessionID ?r9) = Some 7 \<and>
           getUserById stale_state 7 = Inl (UserNotFound 7)"
    by (simp add: s stale_state_def alice_state_def alice_row_def getUserById_def)
  note t1 = logout_succeeds_unless_dangling [of empty_state alice_request]
  note t2 = logout_succeeds_unless_dangling [of alice_state alice_request 1 alice_row]
  note t3 = logout_succeeds_unless_dangling [of stale_state ?r9 7 _ "UserNotFound 7"]
  from t1 e have 1: "api_logout empty_state alice_request = (empty_state, SendStatus 200)"
    by blast
  from t2 a have 2: "snd (api_logout alice_state alice_request) = SendStatus 200"
    "sessions (fst (api_logout alice_state alice_request)) = (sessions alice_state)(''s1'' := None)"
    "users (fst (api_logout alice_state alice_request)) = users alice_state"
    "api_logout (fst (api_logout alice_state alice_request)) alice_request =
       api_logout alice_state alice_request"
    by (simp_all add: s)
  from t3 d have 3: "api_logout stale_state ?r9 = (stale_state, Next (UserNotFound 7))"
    by blast
  from 2(2) have "snd (api_user (fst (api_logout alice_state alice_request)) alice_request) =
      Json 401 (Message ''Not authenticated'')"
    by (simp add: api_user_def route_def user_handler_def passport_session_def s)
  with 1 2 3 a show ?thesis
    by (simp add: register_alice Let_def s)
qed

text \<open>
  C8, as stated, fails on the session \<open>s9\<close>, bound to an account that is gone: the
  request ends in the error and the session stays bound.
\<close>

theorem logout_dangling_session_counterexample:
  "sessions stale_state ''s9'' = Some 7 \<and>
   getUserById stale_state 7 = Inl (UserNotFound 7) \<and>
   api_logout stale_state (alice_request\<lparr>sessionID := ''s9''\<rparr>) =
     (stale_state, Next (UserNotFound 7)) \<and>
   sessions (fst (api_logout stale_state (alice_request\<lparr>sessionID := ''s9''\<rparr>))) ''s9'' = Some 7"
proof -
  have 1: "sessions stale_state ''s9'' = Some 7"
    "getUserById stale_state 7 = Inl (UserNotFound 7)"
    by (simp_all add: stale_state_def alice_state_def alice_row_def getUserById_def)
  have 2: "api_logout stale_state (alice_request\<lparr>sessionID := ''s9''\<rparr>) =
     (stale_state, Next (UserNotFound 7))"
    unfolding api_logout_def by (rule route_Inl) (simp add: stale_session)
  from 1 2 show ?thesis by simp
qed

text \<open>
  C9. An account created from a request whose email, phone or authCode is the empty
  string has no value in that column. A request whose email and phone are both falsy
  (absent or empty) is rejected with the state unchanged: behind \<open>passport.session()\<close>
  it is answered 400 "Either email or phone number is required" when the four required
  fields are there and the 400 for the missing fields otherwise; and with both empty
  strings it gets exactly what it gets with both absent.
\<close>

theorem register_normalizes_empty_strings:
  "(snd (api_register E st req) = Json 201 b \<longrightarrow>
      (\<exists>u. getUserByUsername (fst (api_register E st req)) (str (body_username req)) = Some u \<and>
           (body_email req = Some [] \<longrightarrow> email u = None) \<and>
           (body_phone req = Some [] \<longrightarrow> phone u = None) \<and>
           (body_authCode req = Some [] \<longrightarrow> authCode u = None))) \<and>
   (\<not> truthy (body_email req) \<and> \<not> truthy (body_phone req) \<longrightarrow>
      api_register E st req =
        (st, case passport_session st req of
               Inl e \<Rightarrow> Next e
             | Inr ru \<Rightarrow>
                 Json 400 (Message
                   (if truthy (body_username req) \<and> truthy (body_password req) \<and>
                       truthy (body_firstName req) \<and> truthy (body_lastName req)
                    then ''Either email or phone number is required''
                    else ''Missing required fields: username, password, firstName, and lastName are required'')))) \<and>
   api_register E st (req\<lparr>body_email := Some [], body_phone := Some []\<rparr>) =
     api_register E st (req\<lparr>body_email := None, body_phone := None\<rparr>)"
proof (intro conjI impI)
  assume ok: "snd (api_register E st req) = Json 201 b"
  let ?st' = "fst (api_register E st req)"
  let ?n = "str (body_username req)"
  from register_201 [OF ok] obtain u where
    u: "users ?st' = users st @ [u]" "getUserByUsername st ?n = None" "username u = ?n"
      "varchar_null 255 (or_null (body_email req)) = Inr (email u)"
      "varchar_null 20 (or_null (body_phone req)) = Inr (phone u)"
      "varchar_null 100 (or_null (body_authCode req)) = Inr (authCode u)"
    by blast
  from u(2) have "find (\<lambda>r. username r = ?n) (users st) = None"
    by (simp add: getUserByUsername_def)
  from find_username_new [OF this u(3)] u(1) have "getUserByUsername ?st' ?n = Some u"
    by (simp add: getUserByUsername_def)
  moreover have "email u = None" if "body_email req = Some []"
    using that u(4) by (simp add: or_null_def truthy_def varchar_null_def)
  moreover have "phone u = None" if "body_phone req = Some []"
    using that u(5) by (simp add: or_null_def truthy_def varchar_null_def)
  moreover have "authCode u = None" if "body_authCode req = Some []"
    using that u(6) by (simp add: or_null_def truthy_def varchar_null_def)
  ultimately show "\<exists>u. getUserByUsername ?st' ?n = Some u \<and>
           (body_email req = Some [] \<longrightarrow> email u = None) \<and>
           (body_phone req = Some [] \<longrightarrow> phone u = None) \<and>
           (body_authCode req = Some [] \<longrightarrow> authCode u = None)"
    by blast
next
  assume "\<not> truthy (body_email req) \<and> \<not> truthy (body_phone req)"
  then show "api_register E st req =
        (st, case passport_session st req of
               Inl e \<Rightarrow> Next e
             | Inr ru \<Rightarrow>
                 Json 400 (Message
                   (if truthy (body_username req) \<and> truthy (body_password req) \<and>
                       truthy (body_firstName req) \<and> truthy (body_lastName req)
                    then ''Either email or phone number is required''
                    else ''Missing required fields: username, password, firstName, and lastName are required'')))"
    by (cases "passport_session st req")
       (auto simp add: api_register_def route_def register_handler_def)
next
  have "register_handler E st (req\<lparr>body_email := Some [], body_phone := Some []\<rparr>) =
     register_handler E st (req\<lparr>body_email := None, body_phone := None\<rparr>)"
    by (simp add: register_handler_def truthy_def)
  then show "api_register E st (req\<lparr>body_email := Some [], body_phone := Some []\<rparr>) =
     api_register E st (req\<lparr>body_email := None, body_phone := None\<rparr>)"
    by (simp add: api_register_def route_def passport_session_def)
qed

theorem register_normalizes_empty_strings_witness:
  "(let st1 = fst (api_register sample_env empty_state alice_request)
    in snd (api_register sample_env empty_state alice_request) =
         Json 201 (UserJson
           [(''id'', JNumber 1), (''firstName'', JString ''Al''), (''lastName'', JString ''Bo''),
            (''username'', JString ''alice''), (''email'', JString ''a@b.com''),
            (''phone'', JNull), (''authCode'', JNull), (''createdAt'', JDate 1000)]) \<and>
       body_phone alice_request = Some [] \<and> body_authCode alice_request = Some [] \<and>
       (\<exists>u. getUserByUsername st1 ''alice'' = Some u \<and> phone u = None \<and> authCode u = None)) \<and>
   api_register sample_env empty_state
       (alice_request\<lparr>body_email := Some [], body_phone := Some []\<rparr>) =
     (empty_state, Json 400 (Message ''Either email or phone number is required''))"
proof -
  let ?e = "alice_request\<lparr>body_email := Some [], body_phone := Some []\<rparr>"
  have r: "snd (api_register sample_env empty_state alice_request) = Json 201 (UserJson
        [(''id'', JNumber 1), (''firstName'', JString ''Al''), (''lastName'', JString ''Bo''),
         (''username'', JString ''alice''), (''email'', JString ''a@b.com''),
         (''phone'', JNull), (''authCode'', JNull), (''createdAt'', JDate 1000)])"
    by (simp add: register_alice)
  have f: "body_phone alice_request = Some []" "body_authCode alice_request = Some []"
    "str (body_username alice_request) = ''alice''"
    by (simp_all add: alice_request_def str_def)
  have t: "\<not> truthy (body_email ?e) \<and> \<not> truthy (body_phone ?e)"
    "truthy (body_username ?e)" "truthy (body_password ?e)"
    "truthy (body_firstName ?e)" "truthy (body_lastName ?e)"
    by (simp_all add: alice_request_def truthy_def)
  from register_normalizes_empty_strings [of sample_env empty_state alice_request] r f
  have 1: "\<exists>u. getUserByUsername (fst (api_register sample_env empty_state alice_request)) ''alice'' = Some u \<and>
             phone u = None \<and> authCode u = None"
    by auto
  from register_normalizes_empty_strings [of sample_env empty_state ?e] t
  have 2: "api_register sample_env empty_state ?e =
     (empty_state, Json 400 (Message ''Either email or phone number is required''))"
    by (simp add: no_session(3))
  from 1 2 r f show ?thesis by (simp add: Let_def)
qed

end
